theory Spec2Isabelle
  imports Main "HOL-Library.AList"
begin

section \<open>Text\<close>

text \<open>
  A Python \<open>str\<close> is modelled as a \<open>string\<close>: a list of characters, each one a code
  point below 256. The character classes below are those of Python's \<open>str\<close> methods
  on that range.
\<close>

definition NL :: char where
  "NL = CHR 0x0A"

definition py_isspace :: "char \<Rightarrow> bool" where
  \<comment> \<open>\<open>str.isspace\<close> on one character: TAB, LF, VT, FF, CR, FS, GS, RS, US, SPACE, NEL, NBSP.\<close>
  "py_isspace c =
     (let n = (of_char c :: nat)
      in (9 \<le> n \<and> n \<le> 13) \<or> (28 \<le> n \<and> n \<le> 32) \<or> n = 133 \<or> n = 160)"

definition py_lstrip :: "string \<Rightarrow> string" where
  "py_lstrip s = dropWhile py_isspace s"

definition py_rstrip :: "string \<Rightarrow> string" where
  "py_rstrip s = rev (dropWhile py_isspace (rev s))"

definition py_strip :: "string \<Rightarrow> string" where
  \<comment> \<open>\<open>s.strip()\<close>\<close>
  "py_strip s = py_rstrip (py_lstrip s)"

definition py_strip_chars :: "char \<Rightarrow> string \<Rightarrow> string" where
  \<comment> \<open>\<open>s.strip(c)\<close> for a one-character argument\<close>
  "py_strip_chars c s = rev (dropWhile (\<lambda>x. x = c) (rev (dropWhile (\<lambda>x. x = c) s)))"

definition py_lower_char :: "char \<Rightarrow> char" where
  \<comment> \<open>\<open>str.lower\<close> on one character: A-Z and the Latin-1 capitals.\<close>
  "py_lower_char c =
     (let n = (of_char c :: nat)
      in if (65 \<le> n \<and> n \<le> 90) \<or> (192 \<le> n \<and> n \<le> 222 \<and> n \<noteq> 215)
         then char_of (n + 32) else c)"

definition py_lower :: "string \<Rightarrow> string" where
  "py_lower s = map py_lower_char s"

definition py_title_char :: "char \<Rightarrow> string" where
  \<comment> \<open>The title-case form of one character, which \<open>str.capitalize\<close> gives the first
      character: a-z and the Latin-1 small letters go to their capitals, the sharp s to
      \<open>Ss\<close>. The micro sign and the y with diaeresis, whose capitals lie above 255, are
      kept as they are.\<close>
  "py_title_char c =
     (let n = (of_char c :: nat)
      in if (97 \<le> n \<and> n \<le> 122) \<or> (224 \<le> n \<and> n \<le> 254 \<and> n \<noteq> 247)
         then [char_of (n - 32)]
         else if n = 223 then ''Ss'' else [c])"

definition py_capitalize :: "string \<Rightarrow> string" where
  \<comment> \<open>\<open>s.capitalize()\<close>: first character in title case, all others in lower case.\<close>
  "py_capitalize s = (case s of [] \<Rightarrow> [] | c # cs \<Rightarrow> py_title_char c @ py_lower cs)"

definition py_startswith :: "string \<Rightarrow> string \<Rightarrow> bool" where
  \<comment> \<open>\<open>s.startswith(p)\<close>\<close>
  "py_startswith s p = (take (length p) s = p)"

fun py_join :: "string \<Rightarrow> string list \<Rightarrow> string" where
  \<comment> \<open>\<open>sep.join(parts)\<close>\<close>
  "py_join sep [] = []"
| "py_join sep [p] = p"
| "py_join sep (p # q # ps) = p @ sep @ py_join sep (q # ps)"

section \<open>Transcript normalizer\<close>

text \<open>
  A ticket payload is a dictionary read with \<open>.get\<close> and a default, so each field is
  optional: \<open>None\<close> is the absent key.
\<close>

record comment =
  author_role :: "string option"
  body :: "string option"

record ticket =
  subject :: "string option"
  comments :: "comment list option"

definition dict_get :: "'a option \<Rightarrow> 'a \<Rightarrow> 'a" where
  \<comment> \<open>\<open>d.get(key, default)\<close> on an optional field\<close>
  "dict_get field dflt = (case field of None \<Rightarrow> dflt | Some v \<Rightarrow> v)"

definition py_or :: "string \<Rightarrow> string \<Rightarrow> string" where
  \<comment> \<open>\<open>a or b\<close> on strings: the empty string is false\<close>
  "py_or a b = (if a = [] then b else a)"

fun normalize_comments :: "string list \<Rightarrow> comment list \<Rightarrow> string list" where
  \<comment> \<open>the \<open>for c in comments\<close> loop, \<open>parts\<close> being the list built so far\<close>
  "normalize_comments parts [] = parts"
| "normalize_comments parts (c # cs) =
     (let role = py_or (py_strip (dict_get (author_role c) ''unknown'')) ''unknown'';
          b = py_strip (dict_get (body c) [])
      in if b = [] then normalize_comments parts cs
         else normalize_comments (parts @ [py_capitalize role @ '': '' @ b]) cs)"

definition normalize_zendesk_ticket :: "ticket \<Rightarrow> string" where
  "normalize_zendesk_ticket zendesk_payload =
     (let subj = dict_get (subject zendesk_payload) [];
          cmts = dict_get (comments zendesk_payload) [];
          parts = (if subj \<noteq> [] then [''Subject: '' @ subj] else [])
      in py_join [NL, NL] (normalize_comments parts cmts))"

section \<open>JSON values\<close>

text \<open>
  What \<open>json.loads\<close> returns: \<open>None\<close>, a bool, an int, a float, a str, a list or
  a dict. A dict is an association list in insertion order with distinct keys. A float
  is kept as the literal it was read from; rounding to binary64 is not modelled.
\<close>

datatype json =
    JNull
  | JBool bool
  | JInt int
  | JFloat string
  | JString string
  | JArray "json list"
  | JObject "(string \<times> json) list"

datatype py_error = TransportFailure | TypeError | AttributeError

definition is_digit :: "char \<Rightarrow> bool" where
  "is_digit c = (let n = (of_char c :: nat) in 48 \<le> n \<and> n \<le> 57)"

definition float_nonzero :: "string \<Rightarrow> bool" where
  \<comment> \<open>a float literal denotes a nonzero number: some digit of its mantissa is not 0
      (\<open>NaN\<close> and the infinities have no digit and are nonzero)\<close>
  "float_nonzero lit =
     (let mant = takeWhile (\<lambda>c. c \<noteq> CHR ''e'' \<and> c \<noteq> CHR ''E'') lit
      in \<not> (\<exists>c \<in> set mant. is_digit c) \<or> (\<exists>c \<in> set mant. is_digit c \<and> c \<noteq> CHR ''0''))"

fun py_truthy :: "json \<Rightarrow> bool" where
  \<comment> \<open>the truth value of \<open>if x:\<close>\<close>
  "py_truthy JNull = False"
| "py_truthy (JBool b) = b"
| "py_truthy (JInt n) = (n \<noteq> 0)"
| "py_truthy (JFloat lit) = float_nonzero lit"
| "py_truthy (JString s) = (s \<noteq> [])"
| "py_truthy (JArray xs) = (xs \<noteq> [])"
| "py_truthy (JObject kvs) = (kvs \<noteq> [])"

definition json_or :: "json \<Rightarrow> json \<Rightarrow> json" where
  \<comment> \<open>\<open>a or b\<close>\<close>
  "json_or a b = (if py_truthy a then a else b)"

fun is_substring :: "string \<Rightarrow> string \<Rightarrow> bool" where
  "is_substring p [] = (p = [])"
| "is_substring p (c # cs) = (py_startswith (c # cs) p \<or> is_substring p cs)"

fun py_in :: "string \<Rightarrow> json \<Rightarrow> py_error + bool" where
  \<comment> \<open>\<open>k in x\<close> for a string \<open>k\<close>: key of a dict, element of a list, substring of a
      string; any other operand raises \<open>TypeError\<close>\<close>
  "py_in k (JObject kvs) = Inr (k \<in> fst ` set kvs)"
| "py_in k (JArray xs) = Inr (JString k \<in> set xs)"
| "py_in k (JString s) = Inr (is_substring k s)"
| "py_in k _ = Inl TypeError"

fun json_get :: "json \<Rightarrow> string \<Rightarrow> json \<Rightarrow> py_error + json" where
  \<comment> \<open>\<open>x.get(k, default)\<close>: only a dict has the method\<close>
  "json_get (JObject kvs) k dflt = Inr (case map_of kvs k of None \<Rightarrow> dflt | Some v \<Rightarrow> v)"
| "json_get _ k dflt = Inl AttributeError"

section \<open>json.loads\<close>

text \<open>
  The decoder of the standard library, as its scanner reads a text: whitespace is
  blank, tab, line feed and carriage return; a value is a string, an object, an array,
  \<open>null\<close>, \<open>true\<close>, \<open>false\<close>, a number, or one of \<open>NaN\<close>, \<open>Infinity\<close>,
  \<open>-Infinity\<close>. A failure is \<open>Inl\<close> of the head of the exception's message (without
  the position it ends with). A four-digit \<open>u\<close> escape above 255 denotes a character outside the
  modelled range and is reported as a failure of its own.

  The recursion carries a bound on its depth; \<open>json_loads\<close> starts it above twice the
  length of the text, which it cannot reach.
\<close>

definition is_json_ws :: "char \<Rightarrow> bool" where
  "is_json_ws c = (c = CHR '' '' \<or> c = CHR 0x09 \<or> c = CHR 0x0A \<or> c = CHR 0x0D)"

definition skip_ws :: "string \<Rightarrow> string" where
  "skip_ws s = dropWhile is_json_ws s"

definition digit_val :: "char \<Rightarrow> nat" where
  "digit_val c = of_char c - 48"

definition nat_of_digits :: "string \<Rightarrow> nat" where
  "nat_of_digits ds = foldl (\<lambda>acc c. 10 * acc + digit_val c) 0 ds"

definition hex_val :: "char \<Rightarrow> nat option" where
  "hex_val c =
     (let n = (of_char c :: nat)
      in if 48 \<le> n \<and> n \<le> 57 then Some (n - 48)
         else if 97 \<le> n \<and> n \<le> 102 then Some (n - 87)
         else if 65 \<le> n \<and> n \<le> 70 then Some (n - 55)
         else None)"

definition decode_uXXXX :: "char \<Rightarrow> char \<Rightarrow> char \<Rightarrow> char \<Rightarrow> nat option" where
  "decode_uXXXX a b c d =
     (case (hex_val a, hex_val b, hex_val c, hex_val d) of
        (Some x, Some y, Some z, Some w) \<Rightarrow> Some (((x * 16 + y) * 16 + z) * 16 + w)
      | _ \<Rightarrow> None)"

definition backslash :: "char \<Rightarrow> char option" where
  \<comment> \<open>the table \<open>BACKSLASH\<close> of one-letter escapes\<close>
  "backslash e =
     (if e = CHR 0x22 then Some (CHR 0x22)
      else if e = CHR 0x5C then Some (CHR 0x5C)
      else if e = CHR ''/'' then Some (CHR ''/'')
      else if e = CHR ''b'' then Some (CHR 0x08)
      else if e = CHR ''f'' then Some (CHR 0x0C)
      else if e = CHR ''n'' then Some (CHR 0x0A)
      else if e = CHR ''r'' then Some (CHR 0x0D)
      else if e = CHR ''t'' then Some (CHR 0x09)
      else None)"

definition str_cons :: "char \<Rightarrow> string + (string \<times> string) \<Rightarrow> string + (string \<times> string)" where
  "str_cons c r = (case r of Inl e \<Rightarrow> Inl e | Inr (s, rest) \<Rightarrow> Inr (c # s, rest))"

fun scanstring :: "string \<Rightarrow> string + (string \<times> string)" where
  \<comment> \<open>reads a string literal after its opening quote (strict mode): the decoded string
      and the text after the closing quote\<close>
  "scanstring [] = Inl ''Unterminated string starting at''"
| "scanstring (c # cs) =
     (if c = CHR 0x22 then Inr ([], cs)
      else if c = CHR 0x5C then
        (case cs of
           [] \<Rightarrow> Inl ''Unterminated string starting at''
         | e # r \<Rightarrow>
             if e = CHR ''u'' then
               (case r of
                  a # b # x # d # r' \<Rightarrow>
                    (case decode_uXXXX a b x d of
                       None \<Rightarrow> Inl (''Invalid '' @ [CHR 0x5C] @ ''uXXXX escape'')
                     | Some n \<Rightarrow>
                         if n < 256 then str_cons (char_of n) (scanstring r')
                         else Inl ''escaped character above 255'')
                | _ \<Rightarrow> Inl (''Invalid '' @ [CHR 0x5C] @ ''uXXXX escape''))
             else
               (case backslash e of
                  None \<Rightarrow> Inl (''Invalid '' @ [CHR 0x5C] @ ''escape'')
                | Some ch \<Rightarrow> str_cons ch (scanstring r)))
      else if (of_char c :: nat) < 32 then Inl ''Invalid control character at''
      else str_cons c (scanstring cs))"

definition int_part :: "string \<Rightarrow> string" where
  \<comment> \<open>the integer digits at the start of a text: 0 alone, or a digit 1-9 with all the
      digits after it; empty when the text does not start with a digit\<close>
  "int_part s =
     (case s of
        [] \<Rightarrow> []
      | c # cs \<Rightarrow>
          if \<not> is_digit c then []
          else if c = CHR ''0'' then [c]
          else c # takeWhile is_digit cs)"

definition frac_part :: "string \<Rightarrow> string" where
  \<comment> \<open>the fraction at the start of a text: a point and at least one digit; else empty\<close>
  "frac_part s =
     (case s of
        p # d # r \<Rightarrow> if p = CHR ''.'' \<and> is_digit d then p # d # takeWhile is_digit r else []
      | _ \<Rightarrow> [])"

definition exp_part :: "string \<Rightarrow> string" where
  \<comment> \<open>the exponent at the start of a text: e or E, an optional sign and at least one
      digit; else empty\<close>
  "exp_part s =
     (case s of
        e # r \<Rightarrow>
          if e = CHR ''e'' \<or> e = CHR ''E'' then
            (let sg = (if py_startswith r ''+'' \<or> py_startswith r ''-'' then take 1 r else []);
                 r1 = drop (length sg) r
             in case r1 of
                  d # r2 \<Rightarrow> if is_digit d then e # sg @ d # takeWhile is_digit r2 else []
                | [] \<Rightarrow> [])
          else []
      | [] \<Rightarrow> [])"

definition match_number :: "string \<Rightarrow> (json \<times> string) option" where
  \<comment> \<open>the number pattern at the start of the text: an optional minus sign, the integer
      digits, then a fraction and an exponent where they are present. The value is an int
      when there is neither fraction nor exponent.\<close>
  "match_number s =
     (let sign = (if py_startswith s ''-'' then ''-'' else []);
          s1 = drop (length sign) s;
          ds = int_part s1
      in if ds = [] then None
         else
           let s2 = drop (length ds) s1;
               frac = frac_part s2;
               s3 = drop (length frac) s2;
               ex = exp_part s3;
               s4 = drop (length ex) s3
           in if frac = [] \<and> ex = []
              then Some (JInt (if sign = [] then int (nat_of_digits ds)
                               else - int (nat_of_digits ds)), s4)
              else Some (JFloat (sign @ ds @ frac @ ex), s4))"

definition expecting_comma :: string where
  "expecting_comma = ''Expecting '' @ [CHR 0x27] @ '','' @ [CHR 0x27] @ '' delimiter''"

definition expecting_colon :: string where
  "expecting_colon = ''Expecting '' @ [CHR 0x27] @ '':'' @ [CHR 0x27] @ '' delimiter''"

definition dict_of_pairs :: "(string \<times> json) list \<Rightarrow> (string \<times> json) list" where
  \<comment> \<open>\<open>dict(pairs)\<close>: a key met again keeps its place and takes the later value\<close>
  "dict_of_pairs pairs = foldl (\<lambda>d (k, v). AList.update k v d) [] pairs"

fun scan_once :: "nat \<Rightarrow> string \<Rightarrow> string + (json \<times> string)"
  and JSONArray :: "nat \<Rightarrow> json list \<Rightarrow> string \<Rightarrow> string + (json \<times> string)"
  and JSONObject :: "nat \<Rightarrow> (string \<times> json) list \<Rightarrow> string \<Rightarrow> string + (json \<times> string)"
where
  "scan_once 0 s = Inl ''maximum recursion depth exceeded''"
| "scan_once (Suc n) s =
     (case s of
        [] \<Rightarrow> Inl ''Expecting value''
      | c # cs \<Rightarrow>
          if c = CHR 0x22 then
            (case scanstring cs of Inl e \<Rightarrow> Inl e | Inr (str, rest) \<Rightarrow> Inr (JString str, rest))
          else if c = CHR ''{'' then
            (case skip_ws cs of
               [] \<Rightarrow> Inl ''Expecting property name enclosed in double quotes''
             | x # r \<Rightarrow>
                 if x = CHR ''}'' then Inr (JObject [], r)
                 else if x = CHR 0x22 then JSONObject n [] r
                 else Inl ''Expecting property name enclosed in double quotes'')
          else if c = CHR ''['' then
            (case skip_ws cs of
               [] \<Rightarrow> Inl ''Expecting value''
             | x # r \<Rightarrow>
                 if x = CHR '']'' then Inr (JArray [], r) else JSONArray n [] (x # r))
          else if py_startswith s ''null'' then Inr (JNull, drop 4 s)
          else if py_startswith s ''true'' then Inr (JBool True, drop 4 s)
          else if py_startswith s ''false'' then Inr (JBool False, drop 5 s)
          else
            (case match_number s of
               Some res \<Rightarrow> Inr res
             | None \<Rightarrow>
                 if py_startswith s ''NaN'' then Inr (JFloat ''NaN'', drop 3 s)
                 else if py_startswith s ''Infinity'' then Inr (JFloat ''Infinity'', drop 8 s)
                 else if py_startswith s ''-Infinity'' then Inr (JFloat ''-Infinity'', drop 9 s)
                 else Inl ''Expecting value''))"
| "JSONArray 0 vals s = Inl ''maximum recursion depth exceeded''"
| "JSONArray (Suc n) vals s =
     (case scan_once n s of
        Inl e \<Rightarrow> Inl e
      | Inr (v, rest) \<Rightarrow>
          (case skip_ws rest of
             [] \<Rightarrow> Inl expecting_comma
           | x # r \<Rightarrow>
               if x = CHR '']'' then Inr (JArray (vals @ [v]), r)
               else if x = CHR '','' then JSONArray n (vals @ [v]) (skip_ws r)
               else Inl expecting_comma))"
| "JSONObject 0 pairs s = Inl ''maximum recursion depth exceeded''"
| "JSONObject (Suc n) pairs s =
     (case scanstring s of
        Inl e \<Rightarrow> Inl e
      | Inr (key, r1) \<Rightarrow>
          (case skip_ws r1 of
             [] \<Rightarrow> Inl expecting_colon
           | x # r2 \<Rightarrow>
               if x \<noteq> CHR '':'' then Inl expecting_colon
               else
                 (case scan_once n (skip_ws r2) of
                    Inl e \<Rightarrow> Inl e
                  | Inr (v, r3) \<Rightarrow>
                      (case skip_ws r3 of
                         [] \<Rightarrow> Inl expecting_comma
                       | y # r4 \<Rightarrow>
                           if y = CHR ''}'' then Inr (JObject (dict_of_pairs (pairs @ [(key, v)])), r4)
                           else if y = CHR '','' then
                             (case skip_ws r4 of
                                [] \<Rightarrow> Inl ''Expecting property name enclosed in double quotes''
                              | q # r5 \<Rightarrow>
                                  if q = CHR 0x22 then JSONObject n (pairs @ [(key, v)]) r5
                                  else Inl ''Expecting property name enclosed in double quotes'')
                           else Inl expecting_comma))))"

definition json_loads :: "string \<Rightarrow> string + json" where
  \<comment> \<open>\<open>json.loads(s)\<close>: one value between optional whitespace, and nothing after it\<close>
  "json_loads s =
     (let s0 = skip_ws s
      in case scan_once (Suc (2 * length s0)) s0 of
           Inl e \<Rightarrow> Inl e
         | Inr (v, rest) \<Rightarrow> if skip_ws rest = [] then Inr v else Inl ''Extra data'')"

section \<open>json.dumps\<close>








section \<open>Written values\<close>





section \<open>Evaluation schema\<close>

text \<open>
  The record the prompt asks the model for: five criteria and an overall rating, each a
  score with a justification, a root cause with one of three labels, and a coaching
  summary.
\<close>

datatype root_label = agent_performance | content_gap | mixed

fun label_text :: "root_label \<Rightarrow> string" where
  "label_text agent_performance = ''agent_performance''"
| "label_text content_gap = ''content_gap''"
| "label_text mixed = ''mixed''"

record rating =
  score :: int
  justification :: string

record root_cause_info =
  label :: root_label
  explanation :: string
  kb_article_suggestion :: string

record evaluation =
  technical_accuracy :: rating
  clarity_and_tone :: rating
  diagnostic_depth :: rating
  ownership_and_follow_through :: rating
  escalation_judgment :: rating
  overall_rating :: rating
  root_cause :: root_cause_info
  coaching_summary :: string

definition rating_json :: "rating \<Rightarrow> json" where
  "rating_json r = JObject [(''score'', JInt (score r)), (''justification'', JString (justification r))]"

definition to_json :: "evaluation \<Rightarrow> json" where
  "to_json ev =
     JObject
      [(''criteria'',
        JObject
         [(''technical_accuracy'', rating_json (technical_accuracy ev)),
          (''clarity_and_tone'', rating_json (clarity_and_tone ev)),
          (''diagnostic_depth'', rating_json (diagnostic_depth ev)),
          (''ownership_and_follow_through'', rating_json (ownership_and_follow_through ev)),
          (''escalation_judgment'', rating_json (escalation_judgment ev))]),
       (''overall_rating'', rating_json (overall_rating ev)),
       (''root_cause'',
        JObject
         [(''label'', JString (label_text (root_cause_info.label (evaluation.root_cause ev)))),
          (''explanation'', JString (explanation (evaluation.root_cause ev))),
          (''kb_article_suggestion'', JString (kb_article_suggestion (evaluation.root_cause ev)))]),
       (''coaching_summary'', JString (evaluation.coaching_summary ev))]"


section \<open>Evaluation\<close>

definition clean_output :: "string \<Rightarrow> string" where
  \<comment> \<open>the text given to the parser: trimmed, and without a code fence around it\<close>
  "clean_output raw_content =
     (let cleaned = py_strip raw_content
      in if py_startswith cleaned ''```'' then
           (let cleaned = py_strip_chars (CHR ''`'') cleaned
            in if py_startswith (py_lower cleaned) ''json'' then py_strip (drop 4 cleaned)
               else cleaned)
         else cleaned)"

definition decode_output :: "string \<Rightarrow> json" where
  \<comment> \<open>the \<open>try\<close> block: the parsed value, or the error dictionary when the parser raises\<close>
  "decode_output raw_content =
     (case json_loads (clean_output raw_content) of
        Inr data \<Rightarrow> data
      | Inl e \<Rightarrow>
          JObject
           [(''error'', JString (''Failed to parse model output as JSON: '' @ e)),
            (''raw_output'', JString raw_content)])"

definition evaluate_ticket :: "(string \<Rightarrow> py_error + string option) \<Rightarrow> string \<Rightarrow> py_error + json" where
  \<comment> \<open>\<open>complete\<close> is the remote call for the prompt built from a ticket text: it raises,
      or returns the content of the first choice, which may be \<open>None\<close>\<close>
  "evaluate_ticket complete ticket_text =
     (case complete ticket_text of
        Inl e \<Rightarrow> Inl e
      | Inr content \<Rightarrow> Inr (decode_output (dict_get content [])))"

definition generate_kb_article ::
  "(string \<Rightarrow> json \<Rightarrow> py_error + string option) \<Rightarrow> string \<Rightarrow> json \<Rightarrow> py_error + string" where
  "generate_kb_article complete ticket_text kb_suggestion =
     (case complete ticket_text kb_suggestion of
        Inl e \<Rightarrow> Inl e
      | Inr content \<Rightarrow> Inr (dict_get content []))"

section \<open>Session state\<close>

record coaching_record =
  label :: string
  overall_score :: json
  root_cause :: json
  coaching_summary :: json

record session_state =
  ticket_text :: string
  last_result :: "json option"
  last_ticket_text :: string
  kb_draft :: string
  coaching_history :: "coaching_record list"
  coaching_keys :: "string list"
  team_insights :: string
  current_ticket_label :: "string option"

definition initial_state :: "string \<Rightarrow> string \<Rightarrow> session_state" where
  \<comment> \<open>the session at its start, given the default example and its label\<close>
  "initial_state default_example default_label =
     \<lparr>ticket_text = default_example, last_result = None, last_ticket_text = [],
      kb_draft = [], coaching_history = [], coaching_keys = [], team_insights = [],
      current_ticket_label = Some default_label\<rparr>"

definition record_result ::
  "(string \<Rightarrow> string) \<Rightarrow> session_state \<Rightarrow> string \<Rightarrow> json \<Rightarrow> py_error + session_state" where
  \<comment> \<open>what the handler does with a result once it is stored; \<open>sha256\<close> is the hex digest of
      the UTF-8 encoding of a text\<close>
  "record_result sha256 st text result =
     (case py_in ''error'' result of
        Inl e \<Rightarrow> Inl e
      | Inr True \<Rightarrow> Inr st
      | Inr False \<Rightarrow>
     (case json_get result ''coaching_summary'' (JString []) of
        Inl e \<Rightarrow> Inl e
      | Inr coaching \<Rightarrow>
     (case json_get result ''root_cause'' (JObject []) of
        Inl e \<Rightarrow> Inl e
      | Inr root0 \<Rightarrow>
     (case json_get result ''overall_rating'' (JObject []) of
        Inl e \<Rightarrow> Inl e
      | Inr overall0 \<Rightarrow>
     (case json_get (json_or root0 (JObject [])) ''label'' (JString ''unknown'') of
        Inl e \<Rightarrow> Inl e
      | Inr root_label \<Rightarrow>
     (case json_get (json_or overall0 (JObject [])) ''score'' (JString ''N/A'') of
        Inl e \<Rightarrow> Inl e
      | Inr overall_sc \<Rightarrow>
          if py_truthy coaching then
            (let ticket_key = sha256 text
             in if ticket_key \<notin> set (coaching_keys st) then
                  Inr (st\<lparr>coaching_keys := coaching_keys st @ [ticket_key],
                          coaching_history := coaching_history st @
                            [\<lparr>label = dict_get (current_ticket_label st) ''Ad-hoc ticket'',
                              overall_score = overall_sc,
                              root_cause = root_label,
                              coaching_summary = coaching\<rparr>]\<rparr>)
                else Inr st)
          else Inr st))))))"

definition run_eval ::
  "(string \<Rightarrow> string) \<Rightarrow> (string \<Rightarrow> py_error + string option) \<Rightarrow> session_state \<Rightarrow> string
     \<Rightarrow> session_state \<times> py_error option" where
  \<comment> \<open>the handler of the evaluate button for the text in the text area: the session after
      it, and the exception that ended it, if any\<close>
  "run_eval sha256 complete st text =
     (if py_strip text = [] then (st, None)
      else
        (case evaluate_ticket complete text of
           Inl e \<Rightarrow> (st, Some e)
         | Inr result \<Rightarrow>
             (let st1 = st\<lparr>last_result := Some result, last_ticket_text := text,
                            kb_draft := [], team_insights := []\<rparr>
              in case record_result sha256 st1 text result of
                   Inl e \<Rightarrow> (st1, Some e)
                 | Inr st2 \<Rightarrow> (st2, None))))"

fun record_all ::
  "(string \<Rightarrow> string) \<Rightarrow> session_state \<Rightarrow> (string \<times> json) list \<Rightarrow> session_state" where
  \<comment> \<open>a sequence of results recorded one after the other; an exception leaves the session
      as it was\<close>
  "record_all sha256 st [] = st"
| "record_all sha256 st ((text, result) # ops) =
     record_all sha256 (case record_result sha256 st text result of Inl e \<Rightarrow> st | Inr st' \<Rightarrow> st') ops"

section \<open>Knowledge-base draft\<close>

definition kb_offer :: "json option \<Rightarrow> py_error + json option" where
  \<comment> \<open>the suggestion for which the draft button is shown, if it is shown\<close>
  "kb_offer result =
     (case result of
        None \<Rightarrow> Inr None
      | Some res \<Rightarrow>
          if \<not> py_truthy res then Inr None
          else
     (case py_in ''error'' res of
        Inl e \<Rightarrow> Inl e
      | Inr True \<Rightarrow> Inr None
      | Inr False \<Rightarrow>
     (case json_get res ''root_cause'' (JObject []) of
        Inl e \<Rightarrow> Inl e
      | Inr root0 \<Rightarrow>
     (case json_get (json_or root0 (JObject [])) ''label'' (JString []) of
        Inl e \<Rightarrow> Inl e
      | Inr root_label \<Rightarrow>
     (case json_get (json_or root0 (JObject [])) ''kb_article_suggestion'' (JString []) of
        Inl e \<Rightarrow> Inl e
      | Inr kb_suggestion \<Rightarrow>
          if py_truthy kb_suggestion \<and> root_label \<in> set [JString ''content_gap'', JString ''mixed'']
          then Inr (Some kb_suggestion) else Inr None)))))"

definition kb_step ::
  "(string \<Rightarrow> json \<Rightarrow> py_error + string option) \<Rightarrow> bool \<Rightarrow> session_state
     \<Rightarrow> (string \<times> json) list \<times> session_state \<times> py_error option" where
  \<comment> \<open>step 2 of the page, \<open>clicked\<close> telling whether the draft button was pressed: the
      calls of \<open>generate_kb_article\<close> it made, the session after it, and the exception
      that ended it, if any\<close>
  "kb_step complete clicked st =
     (case kb_offer (last_result st) of
        Inl e \<Rightarrow> ([], st, Some e)
      | Inr None \<Rightarrow> ([], st, None)
      | Inr (Some kb_suggestion) \<Rightarrow>
          if clicked then
            (case generate_kb_article complete (last_ticket_text st) kb_suggestion of
               Inl e \<Rightarrow> ([(last_ticket_text st, kb_suggestion)], st, Some e)
             | Inr kb_text \<Rightarrow>
                 ([(last_ticket_text st, kb_suggestion)], st\<lparr>kb_draft := kb_text\<rparr>, None))
          else ([], st, None))"

section \<open>Root-cause counts\<close>






section \<open>Store invariant\<close>

definition store_ok :: "session_state \<Rightarrow> bool" where
  \<comment> \<open>one record for each key, no key twice, and a summary that counts as true in every
      record\<close>
  "store_ok st =
     (distinct (coaching_keys st) \<and> length (coaching_keys st) = length (coaching_history st)
      \<and> list_all (\<lambda>r. py_truthy (coaching_summary r)) (coaching_history st))"

section \<open>Sample values\<close>


definition sample_evaluation :: evaluation where
  "sample_evaluation =
     \<lparr>technical_accuracy = \<lparr>score = 3, justification = ''Plausible advice''\<rparr>,
      clarity_and_tone = \<lparr>score = 4, justification = ''Polite and clear''\<rparr>,
      diagnostic_depth = \<lparr>score = 2, justification = ''No questions asked''\<rparr>,
      ownership_and_follow_through = \<lparr>score = 2, justification = ''No next step''\<rparr>,
      escalation_judgment = \<lparr>score = 3, justification = ''Not needed''\<rparr>,
      overall_rating = \<lparr>score = 5, justification = ''Mixed handling''\<rparr>,
      root_cause = \<lparr>root_cause_info.label = content_gap, explanation = ''No article on limits'',
                    kb_article_suggestion = ''CSV import limits''\<rparr>,
      coaching_summary = ''Ask for the payload size first''\<rparr>"

definition sample_silent :: evaluation where
  \<comment> \<open>a well-formed evaluation with an empty coaching summary\<close>
  "sample_silent =
     sample_evaluation\<lparr>overall_rating := \<lparr>score = 1, justification = ''Poor''\<rparr>,
                        evaluation.coaching_summary := []\<rparr>"

definition sample_digest :: "string \<Rightarrow> string" where
  \<comment> \<open>stands for the digest in the examples\<close>
  "sample_digest s = ''sha256:'' @ s"

definition sample_start :: session_state where
  "sample_start = initial_state ''Customer: hello'' ''Assignment example''"




section \<open>Title case\<close>




section \<open>Properties of the normalizer\<close>

text \<open>
  C7. The claim is that the block \<open>Subject: <subject>\<close> is emitted if and only if the subject is
  non-empty after trimming, so that a subject of blanks gives no block. The source tests
  the subject as it is: for a subject of three blanks and no comment the transcript is
  the Subject block with the blanks in it.
\<close>

theorem C7_blank_subject_is_emitted:
  "normalize_zendesk_ticket \<lparr>subject = Some ''   '', comments = Some []\<rparr> = ''Subject:    ''"
  by (simp add: normalize_zendesk_ticket_def dict_get_def)




section \<open>Properties of the decoder\<close>




























































lemma json_loads_empty: "json_loads [] = Inl ''Expecting value''"
  by (simp add: json_loads_def skip_ws_def)

lemma py_strip_empty: "py_strip [] = []"
  by (simp add: py_strip_def py_rstrip_def py_lstrip_def)

lemma clean_output_empty: "clean_output [] = []"
  by (simp add: clean_output_def py_strip_empty py_startswith_def)

text \<open>
  C10. When the content of the completion is \<open>None\<close> or the empty string, the evaluation
  returns the error dictionary, with the empty string as its raw output: the key
  \<open>error\<close> is in it, so no handler takes it for an evaluation.
\<close>

theorem C10_empty_completion_is_failure:
  assumes "complete transcript = Inr content" and "content = None \<or> content = Some []"
  shows "evaluate_ticket complete transcript =
           Inr (JObject [(''error'', JString ''Failed to parse model output as JSON: Expecting value''),
                         (''raw_output'', JString [])])
         \<and> (\<exists>res. evaluate_ticket complete transcript = Inr res \<and> py_in ''error'' res = Inr True)"
  using assms
  by (auto simp: evaluate_ticket_def dict_get_def decode_output_def clean_output_empty
      json_loads_empty)

theorem C10_witness:
  "(\<lambda>t. Inr None :: py_error + string option) ''ticket'' = Inr None \<and>
   evaluate_ticket (\<lambda>t. Inr None) ''ticket'' =
     Inr (JObject [(''error'', JString ''Failed to parse model output as JSON: Expecting value''),
                   (''raw_output'', JString [])])"
  using C10_empty_completion_is_failure [of "\<lambda>t. Inr None" "''ticket''" None] by simp

section \<open>Properties of the evaluate handler\<close>

text \<open>
  C6. When the remote call of an evaluation raises, the handler ends with that exception
  and the session is the one it started from: nothing is appended to the coaching history
  and no hash is added to the keys.
\<close>

theorem C6_transport_failure_keeps_state:
  assumes "py_strip transcript \<noteq> []" and "complete transcript = Inl e"
  shows "run_eval digest complete st transcript = (st, Some e)
         \<and> coaching_history (fst (run_eval digest complete st transcript)) = coaching_history st
         \<and> coaching_keys (fst (run_eval digest complete st transcript)) = coaching_keys st"
  using assms by (simp add: run_eval_def evaluate_ticket_def)

theorem C6_witness:
  "py_strip ''ticket'' \<noteq> [] \<and>
   run_eval (\<lambda>s. s) (\<lambda>t. Inl TransportFailure) (initial_state ''d'' ''l'') ''ticket'' =
     (initial_state ''d'' ''l'', Some TransportFailure)"
proof -
  have h: "py_strip ''ticket'' \<noteq> []"
    by (simp add: py_strip_def py_rstrip_def py_lstrip_def py_isspace_def)
  show ?thesis
    using h C6_transport_failure_keeps_state
      [OF h, of "\<lambda>t. Inl TransportFailure" TransportFailure "\<lambda>s. s" "initial_state ''d'' ''l''"]
    by simp
qed

section \<open>Properties of the root-cause counts\<close>








section \<open>Properties of the knowledge-base step\<close>

text \<open>
  C5. With a well-formed evaluation as the last result, step 2 calls the draft generator
  exactly when the button is pressed, the suggestion is not empty and the label is
  content_gap or mixed, and then with the last ticket text and that suggestion; with the
  label agent_performance it never calls it.
\<close>

theorem C5_kb_generation_gated:
  assumes "last_result st = Some (to_json ev)"
  shows "fst (kb_step complete clicked st) =
           (if clicked \<and> kb_article_suggestion (evaluation.root_cause ev) \<noteq> []
               \<and> root_cause_info.label (evaluation.root_cause ev) \<in> {content_gap, mixed}
            then [(last_ticket_text st, JString (kb_article_suggestion (evaluation.root_cause ev)))]
            else [])
         \<and> (root_cause_info.label (evaluation.root_cause ev) = agent_performance
              \<longrightarrow> fst (kb_step complete clicked st) = [])"
  using assms
  by (cases "root_cause_info.label (evaluation.root_cause ev)")
     (auto simp: kb_step_def kb_offer_def to_json_def json_or_def generate_kb_article_def
           split: sum.splits option.splits)

theorem C5_witness:
  "last_result (sample_start\<lparr>last_result := Some (to_json sample_evaluation)\<rparr>) = Some (to_json sample_evaluation)
   \<and> fst (kb_step (\<lambda>t s. Inr (Some ''# Draft'')) True
          (sample_start\<lparr>last_result := Some (to_json sample_evaluation)\<rparr>))
     = [([], JString ''CSV import limits'')]"
  using C5_kb_generation_gated
    [where st = "sample_start\<lparr>last_result := Some (to_json sample_evaluation)\<rparr>"
       and ev = sample_evaluation and clicked = True and complete = "\<lambda>t s. Inr (Some ''# Draft'')"]
  by (simp add: sample_start_def initial_state_def sample_evaluation_def)

section \<open>Properties of the coaching history\<close>

lemma record_result_to_json:
  "record_result digest st text (to_json ev) =
     (if evaluation.coaching_summary ev \<noteq> [] \<and> digest text \<notin> set (coaching_keys st)
      then Inr (st\<lparr>coaching_keys := coaching_keys st @ [digest text],
                   coaching_history := coaching_history st @
                     [\<lparr>label = dict_get (current_ticket_label st) ''Ad-hoc ticket'',
                       overall_score = JInt (score (overall_rating ev)),
                       root_cause = JString (label_text (root_cause_info.label (evaluation.root_cause ev))),
                       coaching_summary = JString (evaluation.coaching_summary ev)\<rparr>]\<rparr>)
      else Inr st)"
  by (simp add: record_result_def to_json_def rating_json_def json_or_def Let_def)

lemma record_result_cases:
  assumes "record_result digest st text res = Inr st'"
  shows "st' = st \<or>
         (digest text \<notin> set (coaching_keys st) \<and>
          coaching_keys st' = coaching_keys st @ [digest text] \<and>
          (\<exists>r. coaching_history st' = coaching_history st @ [r] \<and> py_truthy (coaching_summary r)))"
  using assms
  by (auto simp: record_result_def Let_def split: sum.splits bool.splits if_splits)

lemma record_result_seen:
  assumes "digest text \<in> set (coaching_keys st)"
  shows "record_result digest st text res = Inr st \<or> (\<exists>e. record_result digest st text res = Inl e)"
  using assms
  by (auto simp: record_result_def Let_def split: sum.splits bool.splits if_splits)

lemma record_result_no_summary:
  assumes "map_of kvs ''coaching_summary'' = None \<or> map_of kvs ''coaching_summary'' = Some (JString [])"
  shows "record_result digest st text (JObject kvs) = Inr st
         \<or> (\<exists>e. record_result digest st text (JObject kvs) = Inl e)"
  using assms
  by (auto simp: record_result_def Let_def split: sum.splits bool.splits if_splits)

lemma store_ok_step:
  assumes "store_ok st"
  shows "store_ok (case record_result digest st text res of Inl e \<Rightarrow> st | Inr st' \<Rightarrow> st')"
proof (cases "record_result digest st text res")
  case (Inl e)
  then show ?thesis using assms by simp
next
  case (Inr st')
  from record_result_cases [OF Inr] assms show ?thesis
    by (auto simp: Inr store_ok_def)
qed

lemma store_ok_record_all:
  "store_ok st \<Longrightarrow> store_ok (record_all digest st ops)"
proof (induction ops arbitrary: st)
  case Nil
  then show ?case by simp
next
  case (Cons a ops)
  obtain t res where a: "a = (t, res)" by (cases a)
  show ?case
    unfolding a record_all.simps
    by (rule Cons.IH) (rule store_ok_step [OF Cons.prems])
qed

lemma store_ok_initial: "store_ok (initial_state d l)"
  by (simp add: store_ok_def initial_state_def)

lemma record_all_single:
  "record_all digest st [(t, res)] =
     (case record_result digest st t res of Inl e \<Rightarrow> st | Inr st' \<Rightarrow> st')"
  by simp

text \<open>
  C1, as the claim states it: for every pair of results, two recordings of one text leave
  one record, that of the first result. When the first result is a well-formed
  evaluation with an empty coaching summary, nothing is stored for it, and the one record
  is that of the second result.
\<close>

theorem C1_second_result_recorded_after_silent_first:
  "coaching_history
     (record_all sample_digest sample_start
        [(''ticket'', to_json sample_silent), (''ticket'', to_json sample_evaluation)])
   = [\<lparr>label = ''Assignment example'', overall_score = JInt 5,
       root_cause = JString ''content_gap'',
       coaching_summary = JString ''Ask for the payload size first''\<rparr>]"
  by (simp add: record_result_to_json sample_silent_def sample_evaluation_def sample_start_def
      initial_state_def dict_get_def sample_digest_def)

text \<open>
  C1, amended. When the first result is a well-formed evaluation with a coaching summary
  that is not empty, and the hash of the text is not yet a key, recording it appends one
  record, made of that result, and the hash; recording the same text again changes
  nothing, whatever the second result is, and returns without an exception when that
  result is a well-formed evaluation. After any sequence of recordings from the start of
  a session the keys are distinct and there is one record for each key.
\<close>

theorem C1_first_recorded_result_wins:
  assumes "evaluation.coaching_summary first_ev \<noteq> []" and "digest transcript \<notin> set (coaching_keys st)"
  shows "(\<exists>st_a. record_result digest st transcript (to_json first_ev) = Inr st_a
           \<and> coaching_history st_a = coaching_history st @
               [\<lparr>label = dict_get (current_ticket_label st) ''Ad-hoc ticket'',
                 overall_score = JInt (score (overall_rating first_ev)),
                 root_cause = JString (label_text (root_cause_info.label (evaluation.root_cause first_ev))),
                 coaching_summary = JString (evaluation.coaching_summary first_ev)\<rparr>]
           \<and> coaching_keys st_a = coaching_keys st @ [digest transcript]
           \<and> record_result digest st_a transcript (to_json second_ev) = Inr st_a
           \<and> record_all digest st_a [(transcript, res)] = st_a)
         \<and> distinct (coaching_keys (record_all digest (initial_state d l) ops))
         \<and> length (coaching_keys (record_all digest (initial_state d l) ops)) =
             length (coaching_history (record_all digest (initial_state d l) ops))"
proof -
  let ?st_a = "st\<lparr>coaching_keys := coaching_keys st @ [digest transcript],
                   coaching_history := coaching_history st @
                     [\<lparr>label = dict_get (current_ticket_label st) ''Ad-hoc ticket'',
                       overall_score = JInt (score (overall_rating first_ev)),
                       root_cause = JString (label_text (root_cause_info.label (evaluation.root_cause first_ev))),
                       coaching_summary = JString (evaluation.coaching_summary first_ev)\<rparr>]\<rparr>"
  have first: "record_result digest st transcript (to_json first_ev) = Inr ?st_a"
    using assms by (simp add: record_result_to_json)
  have seen: "digest transcript \<in> set (coaching_keys ?st_a)" by simp
  have second: "record_result digest ?st_a transcript (to_json second_ev) = Inr ?st_a"
    using seen by (simp add: record_result_to_json)
  have any: "record_all digest ?st_a [(transcript, res)] = ?st_a"
    using record_result_seen [of digest "transcript" ?st_a res, OF seen] by (auto simp: record_all_single)
  have ok: "store_ok (record_all digest (initial_state d l) ops)"
    by (rule store_ok_record_all [OF store_ok_initial])
  have twice: "\<exists>st_a. record_result digest st transcript (to_json first_ev) = Inr st_a
           \<and> coaching_history st_a = coaching_history st @
               [\<lparr>label = dict_get (current_ticket_label st) ''Ad-hoc ticket'',
                 overall_score = JInt (score (overall_rating first_ev)),
                 root_cause = JString (label_text (root_cause_info.label (evaluation.root_cause first_ev))),
                 coaching_summary = JString (evaluation.coaching_summary first_ev)\<rparr>]
           \<and> coaching_keys st_a = coaching_keys st @ [digest transcript]
           \<and> record_result digest st_a transcript (to_json second_ev) = Inr st_a
           \<and> record_all digest st_a [(transcript, res)] = st_a"
    using first second any by (intro exI [of _ ?st_a]) simp
  show ?thesis
    using twice ok unfolding store_ok_def by blast
qed

theorem C1_witness:
  "evaluation.coaching_summary sample_evaluation \<noteq> []
   \<and> sample_digest ''ticket'' \<notin> set (coaching_keys sample_start)
   \<and> (\<exists>st1. record_result sample_digest sample_start ''ticket'' (to_json sample_evaluation) = Inr st1
         \<and> coaching_keys st1 = [''sha256:ticket'']
         \<and> map overall_score (coaching_history st1) = [JInt 5]
         \<and> record_result sample_digest st1 ''ticket'' (to_json sample_silent) = Inr st1)"
proof -
  have a: "sample_digest ''ticket'' \<notin> set (coaching_keys sample_start)"
    by (simp add: sample_start_def initial_state_def)
  have b: "evaluation.coaching_summary sample_evaluation \<noteq> []"
    by (simp add: sample_evaluation_def)
  from C1_first_recorded_result_wins
      [where first_ev = sample_evaluation and digest = sample_digest and transcript = "''ticket''"
         and st = sample_start and second_ev = sample_silent, OF b a]
  obtain st1 where
    "record_result sample_digest sample_start ''ticket'' (to_json sample_evaluation) = Inr st1"
    "coaching_history st1 = coaching_history sample_start @
               [\<lparr>label = dict_get (current_ticket_label sample_start) ''Ad-hoc ticket'',
                 overall_score = JInt (score (overall_rating sample_evaluation)),
                 root_cause = JString (label_text (root_cause_info.label (evaluation.root_cause sample_evaluation))),
                 coaching_summary = JString (evaluation.coaching_summary sample_evaluation)\<rparr>]"
    "coaching_keys st1 = coaching_keys sample_start @ [sample_digest ''ticket'']"
    "record_result sample_digest st1 ''ticket'' (to_json sample_silent) = Inr st1"
    by blast
  then show ?thesis
    using a b
    by (intro conjI exI [of _ st1])
       (simp_all add: sample_start_def initial_state_def sample_evaluation_def sample_digest_def)
qed

text \<open>
  C9. A result whose coaching summary is absent or empty leaves the session as it was:
  no record is appended and no hash is added. Every record stored in a sequence of
  recordings has a summary that counts as true. A later result for the same transcript with a
  summary that is not empty is recorded, when the hash is not yet a key.
\<close>

theorem C9_empty_summary_is_not_recorded:
  assumes "map_of kvs ''coaching_summary'' = None \<or> map_of kvs ''coaching_summary'' = Some (JString [])"
  shows "record_all digest st [(transcript, JObject kvs)] = st
         \<and> list_all (\<lambda>r. py_truthy (coaching_summary r))
              (coaching_history (record_all digest (initial_state d l) ops))
         \<and> (digest transcript \<notin> set (coaching_keys st) \<and> evaluation.coaching_summary ev \<noteq> [] \<longrightarrow>
              coaching_history (record_all digest st [(transcript, JObject kvs), (transcript, to_json ev)]) =
                coaching_history st @
                  [\<lparr>label = dict_get (current_ticket_label st) ''Ad-hoc ticket'',
                    overall_score = JInt (score (overall_rating ev)),
                    root_cause = JString (label_text (root_cause_info.label (evaluation.root_cause ev))),
                    coaching_summary = JString (evaluation.coaching_summary ev)\<rparr>]
              \<and> coaching_keys (record_all digest st [(transcript, JObject kvs), (transcript, to_json ev)]) =
                coaching_keys st @ [digest transcript])"
proof -
  have one: "(case record_result digest st transcript (JObject kvs) of Inl e \<Rightarrow> st | Inr st' \<Rightarrow> st') = st"
    using record_result_no_summary [OF assms, of digest st "transcript"] by auto
  have ok: "store_ok (record_all digest (initial_state d l) ops)"
    by (rule store_ok_record_all [OF store_ok_initial])
  show ?thesis
    using one ok by (simp add: store_ok_def record_result_to_json)
qed

theorem C9_witness:
  "coaching_history (record_all sample_digest sample_start [(''ticket'', to_json sample_silent)]) = []
   \<and> coaching_keys (record_all sample_digest sample_start [(''ticket'', to_json sample_silent)]) = []
   \<and> coaching_keys (record_all sample_digest sample_start
        [(''ticket'', to_json sample_silent), (''ticket'', to_json sample_evaluation)]) = [''sha256:ticket'']"
proof -
  obtain K where K: "to_json sample_silent = JObject K"
    by (simp add: to_json_def)
  have h: "map_of K ''coaching_summary'' = None \<or> map_of K ''coaching_summary'' = Some (JString [])"
    using K by (auto simp: to_json_def sample_silent_def)
  have a: "sample_digest ''ticket'' \<notin> set (coaching_keys sample_start)"
    by (simp add: sample_start_def initial_state_def)
  have b: "evaluation.coaching_summary sample_evaluation \<noteq> []"
    by (simp add: sample_evaluation_def)
  note inst = C9_empty_summary_is_not_recorded
      [OF h, where digest = sample_digest and st = sample_start and transcript = "''ticket''"
        and ev = sample_evaluation]
  have f1: "record_all sample_digest sample_start [(''ticket'', JObject K)] = sample_start"
    using inst by blast
  have f2: "coaching_keys (record_all sample_digest sample_start
        [(''ticket'', JObject K), (''ticket'', to_json sample_evaluation)]) =
        coaching_keys sample_start @ [sample_digest ''ticket'']"
    using inst a b by blast
  show ?thesis
    unfolding K using f1 f2
    by (simp add: sample_start_def initial_state_def sample_digest_def del: record_all.simps)
qed

end
